theory Spec2Isabelle
  imports Complex_Main "HOL-Library.Sublist" "HOL-Library.Char_ord" "HOL-Library.List_Lexorder"
    "HOL-Library.AList"
begin

section \<open>Python string primitives used by the program\<close>

text \<open>
  Python strings are modelled as \<open>string\<close>, one \<open>char\<close> per code point, so the model
  covers the code points below 256. The functions below follow the behaviour of the
  \<open>str\<close> methods the program calls.
\<close>

definition py_isspace :: "char \<Rightarrow> bool" where
  \<comment> \<open>the code points below 256 that \<open>str.strip()\<close> removes\<close>
  "py_isspace c = ((of_char c :: nat) \<in> {9, 10, 11, 12, 13, 28, 29, 30, 31, 32, 133, 160})"

definition py_strip :: "string \<Rightarrow> string" where
  "py_strip s = rev (dropWhile py_isspace (rev (dropWhile py_isspace s)))"

text \<open>
  \<open>s.split(sep)\<close> for a separator: scan from the left, cut at every non-overlapping
  occurrence. Every call site passes a non-empty literal (Python raises on an empty
  separator; here an empty separator never matches).
\<close>

function py_split :: "string \<Rightarrow> string \<Rightarrow> string list" where
  "py_split sep [] = [[]]"
| "py_split sep (c # cs) =
     (if sep \<noteq> [] \<and> prefix sep (c # cs)
      then [] # py_split sep (drop (length sep) (c # cs))
      else (case py_split sep cs of [] \<Rightarrow> [[c]] | p # ps \<Rightarrow> (c # p) # ps))"
  by pat_completeness auto
termination
  by (relation "measure (\<lambda>(sep, s). length s)") auto

text \<open>\<open>s.replace(old, new)\<close>, every non-overlapping occurrence from the left; \<open>old\<close> is a
  non-empty literal at every call site (an empty \<open>old\<close> leaves the string as it is here).\<close>

function py_replace :: "string \<Rightarrow> string \<Rightarrow> string \<Rightarrow> string" where
  "py_replace old new [] = []"
| "py_replace old new (c # cs) =
     (if old \<noteq> [] \<and> prefix old (c # cs)
      then new @ py_replace old new (drop (length old) (c # cs))
      else c # py_replace old new cs)"
  by pat_completeness auto
termination
  by (relation "measure (\<lambda>(old, new, s). length s)") auto

fun py_join :: "string \<Rightarrow> string list \<Rightarrow> string" where
  "py_join sep [] = []"
| "py_join sep [x] = x"
| "py_join sep (x # y # ys) = x @ sep @ py_join sep (y # ys)"

fun py_in :: "string \<Rightarrow> string \<Rightarrow> bool" where
  \<comment> \<open>\<open>sub in s\<close>: \<open>sub\<close> occurs in \<open>s\<close> as a contiguous substring\<close>
  "py_in sub [] = (sub = [])"
| "py_in sub (c # cs) = (prefix sub (c # cs) \<or> py_in sub cs)"

definition py_lower_char :: "char \<Rightarrow> char" where
  \<comment> \<open>\<open>str.lower()\<close> on one code point below 256: A-Z and the Latin-1 capitals\<close>
  "py_lower_char c =
     (let n = (of_char c :: nat) in
      if (65 \<le> n \<and> n \<le> 90) \<or> (192 \<le> n \<and> n \<le> 214) \<or> (216 \<le> n \<and> n \<le> 222)
      then char_of (n + 32) else c)"

definition py_lower :: "string \<Rightarrow> string" where
  "py_lower s = map py_lower_char s"

section \<open>The SRT parser (class SRTParser)\<close>

text \<open>
  The conversions \<open>int(...)\<close> and \<open>float(...)\<close> and the arithmetic of floats are
  Python's own; the parser is modelled over any such operations. \<open>None\<close> stands for
  the exception raised: ValueError by the two conversions of a field, OverflowError by
  the conversion of an integer operand that meets a float and is beyond the range of
  doubles. Times are rationals, as every finite double is; the sum and the product are
  whatever the float operations give, rounding included. The infinities and NaN, which
  \<open>float\<close> also reads and a product can reach, are outside the model.
\<close>

record builtins =
  py_int :: "string \<Rightarrow> int option"         \<comment> \<open>\<open>int(s)\<close>\<close>
  py_float :: "string \<Rightarrow> rat option"       \<comment> \<open>\<open>float(s)\<close>\<close>
  int_to_float :: "int \<Rightarrow> rat option"      \<comment> \<open>an integer operand converted for a float operation\<close>
  float_add :: "rat \<Rightarrow> rat \<Rightarrow> rat"        \<comment> \<open>\<open>x + y\<close> on floats\<close>
  float_mul :: "rat \<Rightarrow> rat \<Rightarrow> rat"        \<comment> \<open>\<open>x * y\<close> on floats\<close>

record subtitle =
  sub_start :: rat
  sub_end :: rat
  sub_text :: string

definition srt_time_fields :: "string \<Rightarrow> string list" where
  \<comment> \<open>\<open>parts = time_str.replace(',', '.').split(':')\<close>\<close>
  "srt_time_fields time_str = py_split '':'' (py_replace '','' ''.'' time_str)"

definition srt_time_to_ms :: "builtins \<Rightarrow> string \<Rightarrow> rat option" where
  \<comment> \<open>\<open>(hours * 3600 + minutes * 60 + seconds) * 1000\<close>: the integer
      \<open>hours * 3600 + minutes * 60\<close> is converted to a float to be added to \<open>seconds\<close>,
      which raises when it is too large; 1000 converts exactly\<close>
  "srt_time_to_ms cv time_str =
     (let parts = srt_time_fields time_str in
      if length parts \<noteq> 3 then Some 0
      else (case py_int cv (parts ! 0) of None \<Rightarrow> None | Some hours \<Rightarrow>
           (case py_int cv (parts ! 1) of None \<Rightarrow> None | Some minutes \<Rightarrow>
           (case py_float cv (parts ! 2) of None \<Rightarrow> None | Some seconds \<Rightarrow>
           (case int_to_float cv (hours * 3600 + minutes * 60) of None \<Rightarrow> None | Some whole \<Rightarrow>
              Some (float_mul cv (float_add cv whole seconds) 1000))))))"

definition srt_parse_block :: "builtins \<Rightarrow> string \<Rightarrow> subtitle option" where
  \<comment> \<open>the body of the loop over blocks: \<open>None\<close> when the block is skipped\<close>
  "srt_parse_block cv block =
     (let lines = py_split [CHR 0x0A] block in
      if length lines < 3 then None
      else let times = py_split '' --> '' (lines ! 1) in
        if length times \<noteq> 2 then None
        else (case srt_time_to_ms cv (py_strip (times ! 0)) of None \<Rightarrow> None | Some start_time \<Rightarrow>
             (case srt_time_to_ms cv (py_strip (times ! 1)) of None \<Rightarrow> None | Some end_time \<Rightarrow>
                Some \<lparr>sub_start = start_time, sub_end = end_time,
                      sub_text = py_join [CHR 0x0A] (drop 2 lines)\<rparr>)))"

definition srt_blocks :: "string \<Rightarrow> string list" where
  "srt_blocks content =
     py_split [CHR 0x0A, CHR 0x0A] (py_replace [CHR 0x0D, CHR 0x0A] [CHR 0x0A] (py_strip content))"

definition srt_parse :: "builtins \<Rightarrow> string \<Rightarrow> subtitle list" where
  "srt_parse cv content =
     (if content = [] then []
      else sort_key sub_start (List.map_filter (srt_parse_block cv) (srt_blocks content)))"

definition srt_format_subtitle_text :: "string \<Rightarrow> string" where
  "srt_format_subtitle_text t =
     (let t = py_replace ''&'' ''&amp;'' t;
          t = py_replace ''<'' ''&lt;'' t;
          t = py_replace ''>'' ''&gt;'' t;
          t = py_replace ''{b}'' ''<b>'' t;
          t = py_replace ''{/b}'' ''</b>'' t;
          t = py_replace ''{i}'' ''<i>'' t;
          t = py_replace ''{/i}'' ''</i>'' t
      in t)"

fun srt_get_subtitle_at_time :: "subtitle list \<Rightarrow> rat \<Rightarrow> string" where
  "srt_get_subtitle_at_time [] timestamp_ms = []"
| "srt_get_subtitle_at_time (s # rest) timestamp_ms =
     (if sub_start s \<le> timestamp_ms \<and> timestamp_ms \<le> sub_end s
      then srt_format_subtitle_text (sub_text s)
      else srt_get_subtitle_at_time rest timestamp_ms)"

section \<open>The WebVTT parser's lookup and formatting (class VTTParser)\<close>

definition vtt_allowed_tags :: "string list" where
  "vtt_allowed_tags = [''b'', ''i'', ''u'', ''c'']"

definition vtt_format_subtitle_text :: "string \<Rightarrow> string" where
  \<comment> \<open>the loop over the allowed tags replaces each tag by the same tag, as the source does\<close>
  "vtt_format_subtitle_text t =
     (let t = py_replace ''&'' ''&amp;'' t;
          t = py_replace ''<'' ''&lt;'' t;
          t = py_replace ''>'' ''&gt;'' t
      in foldl (\<lambda>t tag.
            py_replace (''</'' @ tag @ ''>'') (''</'' @ tag @ ''>'')
              (py_replace (''<'' @ tag @ ''>'') (''<'' @ tag @ ''>'') t))
          t vtt_allowed_tags)"

fun vtt_get_subtitle_at_time :: "subtitle list \<Rightarrow> rat \<Rightarrow> string" where
  "vtt_get_subtitle_at_time [] timestamp_ms = []"
| "vtt_get_subtitle_at_time (s # rest) timestamp_ms =
     (if sub_start s \<le> timestamp_ms \<and> timestamp_ms \<le> sub_end s
      then vtt_format_subtitle_text (sub_text s)
      else vtt_get_subtitle_at_time rest timestamp_ms)"

subsection \<open>The display of the current cue (\<open>VideoPlayer.update_subtitle_display\<close>)\<close>

datatype label = Markup string | Plain string

text \<open>
  What the timer callback does with the text the lookup returns, for a parser of each
  kind: the new value of \<open>current_subtitle_text\<close> and the call on the label,
  \<open>set_markup\<close> or \<open>set_text\<close>, if there is one.
\<close>

definition srt_update_subtitle_display ::
  "subtitle list \<Rightarrow> rat \<Rightarrow> string option \<Rightarrow> string option \<times> label option" where
  "srt_update_subtitle_display track position_ms current =
     (let subtitle_text = srt_get_subtitle_at_time track position_ms in
      if Some subtitle_text \<noteq> current
      then (Some subtitle_text,
            Some (if subtitle_text \<noteq> []
                  then Markup (''<span>'' @ srt_format_subtitle_text subtitle_text @ ''</span>'')
                  else Plain []))
      else (current, None))"

definition vtt_update_subtitle_display ::
  "subtitle list \<Rightarrow> rat \<Rightarrow> string option \<Rightarrow> string option \<times> label option" where
  "vtt_update_subtitle_display track position_ms current =
     (let subtitle_text = vtt_get_subtitle_at_time track position_ms in
      if Some subtitle_text \<noteq> current
      then (Some subtitle_text,
            Some (if subtitle_text \<noteq> []
                  then Markup (''<span>'' @ vtt_format_subtitle_text subtitle_text @ ''</span>'')
                  else Plain []))
      else (current, None))"

subsection \<open>The escaping both formatters apply first\<close>

text \<open>
  The three escaping replacements as one function, and what they do to one character
  (used in the proofs).
\<close>

definition escape_markup :: "string \<Rightarrow> string" where
  "escape_markup t =
     py_replace ''>'' ''&gt;'' (py_replace ''<'' ''&lt;'' (py_replace ''&'' ''&amp;'' t))"

definition esc_all :: "char \<Rightarrow> string" where
  "esc_all c = (if c = CHR ''&'' then ''&amp;'' else if c = CHR ''<'' then ''&lt;''
     else if c = CHR ''>'' then ''&gt;'' else [c])"

subsection \<open>Decimal conversions for concrete runs\<close>

text \<open>
  The concrete runs below use the following operations. They give what Python gives on
  the tokens and values of the runs: a field of decimal digits for \<open>int\<close>; for
  \<open>float\<close>, decimal digits with an optional fraction whose value a double holds
  exactly (the runs have fractions of zeros); sums and products that a double holds
  exactly (the runs stay among the integers below \<open>2 ^ 53\<close>). The conversion of an
  integer is exact below \<open>2 ^ 53\<close> (9007199254740992), rounds to the nearest double,
  ties to even, above it, and raises OverflowError from \<open>2 ^ 1024 - 2 ^ 970\<close> on, where
  the nearest double would be beyond the largest one.
\<close>

definition digit_val :: "char \<Rightarrow> nat option" where
  "digit_val c = (let n = (of_char c :: nat) in if 48 \<le> n \<and> n \<le> 57 then Some (n - 48) else None)"

fun dec_nat :: "nat \<Rightarrow> string \<Rightarrow> nat option" where
  "dec_nat acc [] = Some acc"
| "dec_nat acc (c # cs) = (case digit_val c of None \<Rightarrow> None | Some d \<Rightarrow> dec_nat (10 * acc + d) cs)"

definition dec_int :: "string \<Rightarrow> int option" where
  "dec_int s = (if s = [] then None else map_option int (dec_nat 0 s))"

definition dec_float :: "string \<Rightarrow> rat option" where
  "dec_float s =
     (case py_split ''.'' s of
        [ip] \<Rightarrow> (if ip = [] then None else map_option of_nat (dec_nat 0 ip))
      | [ip, fp] \<Rightarrow>
          (if ip = [] \<and> fp = [] then None
           else (case (dec_nat 0 ip, dec_nat 0 fp) of
                   (Some a, Some b) \<Rightarrow> Some (of_nat a + of_nat b / of_nat (10 ^ length fp))
                 | _ \<Rightarrow> None))
      | _ \<Rightarrow> None)"

function bit_length :: "nat \<Rightarrow> nat" where
  "bit_length n = (if n = 0 then 0 else Suc (bit_length (n div 2)))"
  by pat_completeness auto
termination
  by (relation "measure id") auto

definition round_to_double :: "nat \<Rightarrow> nat" where
  \<comment> \<open>the nearest number with at most 53 significant bits, ties to the even one\<close>
  "round_to_double a =
     (if bit_length a \<le> 53 then a
      else let e = bit_length a - 53; q = a div 2 ^ e; r = a mod 2 ^ e; h = 2 ^ (e - 1)
           in (if h < r \<or> (r = h \<and> odd q) then q + 1 else q) * 2 ^ e)"

definition double_overflow_bound :: int where
  \<comment> \<open>\<open>2 ^ 1024 - 2 ^ 970\<close>, written out\<close>
  "double_overflow_bound =
     179769313486231580793728971405303415079934132710037826936173778980444968292764750946649017977587207096330286416692887910946555547851940402630657488671505820681908902000708383676273854845817711531764475730270069855571366959622842914819860834936475292719074168444365510704342711559699508093042880177904174497792"

definition int_to_double :: "int \<Rightarrow> rat option" where
  "int_to_double n =
     (if \<bar>n\<bar> < 9007199254740992 then Some (of_int n)
      else if double_overflow_bound \<le> \<bar>n\<bar> then None
      else Some (of_int (sgn n * int (round_to_double (nat \<bar>n\<bar>)))))"

definition dec_builtins :: builtins where
  "dec_builtins =
     \<lparr>py_int = dec_int, py_float = dec_float, int_to_float = int_to_double,
      float_add = (+), float_mul = (*)\<rparr>"

definition long_hours :: string where
  \<comment> \<open>an hours field of 401 digits: 1 followed by 400 zeros\<close>
  "long_hours = CHR ''1'' # replicate 400 CHR ''0''"

definition long_hours_block :: string where
  \<comment> \<open>an SRT block whose first time token has that hours field\<close>
  "long_hours_block =
     ''1'' @ [CHR 0x0A] @ long_hours @ '':00:00,000 --> 00:00:01,000'' @ [CHR 0x0A] @ ''Hi''"

section \<open>Paths (the functions of \<open>os.path\<close> the program calls)\<close>

fun rfind_from :: "char \<Rightarrow> string \<Rightarrow> nat \<Rightarrow> int \<Rightarrow> int" where
  "rfind_from c [] i found = found"
| "rfind_from c (x # xs) i found = rfind_from c xs (Suc i) (if x = c then int i else found)"

definition py_rfind :: "char \<Rightarrow> string \<Rightarrow> int" where
  \<comment> \<open>\<open>s.rfind(c)\<close>: the index of the last occurrence, or -1\<close>
  "py_rfind c s = rfind_from c s 0 (- 1)"

definition splitext :: "string \<Rightarrow> string \<times> string" where
  \<comment> \<open>the extension starts at the last dot of the last component, leading dots of the
      component not counting\<close>
  "splitext p =
     (let sepIndex = py_rfind CHR ''/'' p; dotIndex = py_rfind CHR ''.'' p in
      if dotIndex > sepIndex \<and>
         list_ex (\<lambda>c. c \<noteq> CHR ''.'')
           (take (nat (dotIndex - (sepIndex + 1))) (drop (nat (sepIndex + 1)) p))
      then (take (nat dotIndex) p, drop (nat dotIndex) p)
      else (p, []))"

definition basename :: "string \<Rightarrow> string" where
  "basename p = drop (nat (py_rfind CHR ''/'' p + 1)) p"

definition dirname :: "string \<Rightarrow> string" where
  "dirname p =
     (let head = take (nat (py_rfind CHR ''/'' p + 1)) p in
      if head \<noteq> [] \<and> head \<noteq> replicate (length head) CHR ''/''
      then rev (dropWhile (\<lambda>c. c = CHR ''/'') (rev head))
      else head)"

definition path_join :: "string \<Rightarrow> string \<Rightarrow> string" where
  \<comment> \<open>\<open>os.path.join(a, b)\<close>\<close>
  "path_join a b =
     (if prefix ''/'' b then b
      else if a = [] \<or> last a = CHR ''/'' then a @ b
      else a @ ''/'' @ b)"

section \<open>The file system and the media backend, as the player sees them\<close>

record environment =
  fs_exists :: "string \<Rightarrow> bool"                \<comment> \<open>\<open>os.path.exists\<close>\<close>
  fs_isdir :: "string \<Rightarrow> bool"                 \<comment> \<open>\<open>os.path.isdir\<close>\<close>
  fs_listdir :: "string \<Rightarrow> string list option"  \<comment> \<open>\<open>os.listdir\<close>, \<open>None\<close> when it raises\<close>
  fs_getsize :: "string \<Rightarrow> nat option"         \<comment> \<open>\<open>os.path.getsize\<close>, \<open>None\<close> when it raises\<close>
  fs_read :: "string \<Rightarrow> string option"         \<comment> \<open>the decoded content, \<open>None\<close> when reading raises\<close>
  gst_accepts :: "string \<Rightarrow> bool"              \<comment> \<open>setting the subtitle URI and flags on the playbin succeeds\<close>

section \<open>The subtitle path search of \<open>VideoPlayer.load_subtitles\<close>\<close>

definition subtitle_extensions :: "string list" where
  "subtitle_extensions = [''.srt'', ''.vtt'', ''.ass'', ''.ssa'', ''.sub'']"

definition language_codes :: "string list" where
  "language_codes =
     [''en'', ''eng'', ''english'', ''es'', ''spa'', ''spanish'', ''fr'', ''fre'', ''french'',
      ''de'', ''ger'', ''german'', ''it'', ''ita'', ''italian'', ''ru'', ''rus'', ''russian'']"

definition subtitle_subdirs :: "string list" where
  "subtitle_subdirs = [''subtitles'', ''subs'', ''srt'', ''subtitle'', ''sub'']"

fun first_some :: "('a \<Rightarrow> 'b option) \<Rightarrow> 'a list \<Rightarrow> 'b option" where
  \<comment> \<open>an outer loop that stops as soon as its body has found something\<close>
  "first_some f [] = None"
| "first_some f (x # xs) = (case f x of Some y \<Rightarrow> Some y | None \<Rightarrow> first_some f xs)"

definition pattern_lang :: "environment \<Rightarrow> string \<Rightarrow> string \<Rightarrow> string option" where
  \<comment> \<open>patterns 1 to 3: languages in the outer loop, extensions in the inner one\<close>
  "pattern_lang env base_path sep =
     first_some
       (\<lambda>lang. find (fs_exists env) (map (\<lambda>ext. base_path @ sep @ lang @ ext) subtitle_extensions))
       language_codes"

definition pattern_generic :: "environment \<Rightarrow> string \<Rightarrow> string option" where
  \<comment> \<open>pattern 4\<close>
  "pattern_generic env base_path =
     find (fs_exists env) (map (\<lambda>ext. base_path @ ext) subtitle_extensions)"

definition subdir_match :: "string \<Rightarrow> string \<Rightarrow> bool" where
  \<comment> \<open>the test on one file name of a subtitle directory (pattern 5)\<close>
  "subdir_match base_name filename =
     (let file_base = fst (splitext filename); file_ext = snd (splitext filename) in
      py_lower file_ext \<in> set subtitle_extensions \<and>
      (py_in (py_lower file_base) (py_lower base_name) \<or>
       py_in (py_lower base_name) (py_lower file_base) \<or>
       py_lower file_base = py_lower base_name))"

definition parent_match :: "string \<Rightarrow> string \<Rightarrow> bool" where
  \<comment> \<open>the test on one file name of the parent directory (pattern 6)\<close>
  "parent_match base_name filename =
     (let file_base = fst (splitext filename); file_ext = snd (splitext filename) in
      py_lower file_ext \<in> set subtitle_extensions \<and>
      py_in (py_lower base_name) (py_lower file_base))"

datatype error = OSError | TypeError | AttributeError | ValueError

fun pattern_subdirs ::
  "environment \<Rightarrow> string \<Rightarrow> string \<Rightarrow> string list \<Rightarrow> error + string option" where
  \<comment> \<open>pattern 5: the loop over the subtitle directory names\<close>
  "pattern_subdirs env directory base_name [] = Inr None"
| "pattern_subdirs env directory base_name (subdir # rest) =
     (let subs_dir = path_join directory subdir in
      if fs_exists env subs_dir \<and> fs_isdir env subs_dir
      then (case fs_listdir env subs_dir of
              None \<Rightarrow> Inl OSError
            | Some names \<Rightarrow>
                (case find (subdir_match base_name) names of
                   Some filename \<Rightarrow> Inr (Some (path_join subs_dir filename))
                 | None \<Rightarrow> pattern_subdirs env directory base_name rest))
      else pattern_subdirs env directory base_name rest)"

definition pattern_parent :: "environment \<Rightarrow> string \<Rightarrow> string \<Rightarrow> error + string option" where
  \<comment> \<open>pattern 6\<close>
  "pattern_parent env directory base_name =
     (let parent_dir = dirname directory in
      if fs_exists env parent_dir \<and> fs_isdir env parent_dir
      then (case fs_listdir env parent_dir of
              None \<Rightarrow> Inl OSError
            | Some names \<Rightarrow>
                (case find (parent_match base_name) names of
                   Some filename \<Rightarrow> Inr (Some (path_join parent_dir filename))
                 | None \<Rightarrow> Inr None))
      else Inr None)"

definition find_subtitle :: "environment \<Rightarrow> string \<Rightarrow> error + string option" where
  \<comment> \<open>the value of \<open>found_subtitle\<close> after the six patterns; \<open>Inl\<close> when a listing raises\<close>
  "find_subtitle env video_path =
     (let base_path = fst (splitext video_path);
          base_name = basename base_path;
          directory = dirname video_path in
      case pattern_lang env base_path ''.'' of Some f \<Rightarrow> Inr (Some f) | None \<Rightarrow>
     (case pattern_lang env base_path ''_'' of Some f \<Rightarrow> Inr (Some f) | None \<Rightarrow>
     (case pattern_lang env base_path ''-'' of Some f \<Rightarrow> Inr (Some f) | None \<Rightarrow>
     (case pattern_generic env base_path of Some f \<Rightarrow> Inr (Some f) | None \<Rightarrow>
     (case pattern_subdirs env directory base_name subtitle_subdirs of
        Inl e \<Rightarrow> Inl e
      | Inr (Some f) \<Rightarrow> Inr (Some f)
      | Inr None \<Rightarrow> pattern_parent env directory base_name)))))"




section \<open>The player's subtitle state\<close>

record player =
  playbin :: bool                         \<comment> \<open>\<open>self.playbin\<close> is set\<close>
  last_subtitle_check :: "string option"  \<comment> \<open>\<open>self._last_subtitle_check\<close>, \<open>None\<close> when the attribute is absent\<close>
  subtitle_not_found :: "string option"
  subtitle_file :: "string option"
  subtitle_file_label :: string
  subtitle_info_bar_revealed :: bool
  subtitle_label :: string
  current_subtitle_text :: "string option"
  subtitle_parser :: "subtitle list option"
  subtitle_timer_id :: nat
  subtitle_button_active :: bool
  subtitles_enabled :: bool

definition set_subtitle_file :: "environment \<Rightarrow> player \<Rightarrow> string \<Rightarrow> bool \<times> player" where
  "set_subtitle_file env p subtitle_path =
     (if subtitle_path = [] \<or> \<not> fs_exists env subtitle_path then (False, p)
      else (case fs_getsize env subtitle_path of
              None \<Rightarrow> (False, p)
            | Some file_size \<Rightarrow>
                if file_size = 0 then (False, p)
                else
                  let p = p\<lparr>subtitle_file := Some subtitle_path,
                             subtitle_file_label := basename subtitle_path,
                             subtitle_timer_id := 0,
                             subtitle_parser := None,
                             subtitle_label := [],
                             current_subtitle_text := None\<rparr> in
                  if \<not> playbin p then (False, p)
                  else if gst_accepts env subtitle_path
                  then (True, p\<lparr>subtitle_info_bar_revealed := True,
                                  subtitle_button_active := True,
                                  subtitles_enabled := True\<rparr>)
                  else (False, p\<lparr>subtitle_file := None,
                                   subtitle_file_label := ''None'',
                                   subtitle_info_bar_revealed := False\<rparr>)))"

datatype outcome = Raised | Returned bool

definition load_subtitles :: "environment \<Rightarrow> player \<Rightarrow> string \<Rightarrow> outcome \<times> player" where
  "load_subtitles env p video_path =
     (if video_path = [] then (Returned False, p)
      else if last_subtitle_check p = Some video_path then (Returned False, p)
      else
        let p = p\<lparr>last_subtitle_check := Some video_path,
                   subtitle_file := None,
                   subtitle_label := [],
                   current_subtitle_text := None\<rparr> in
        case find_subtitle env video_path of
          Inl e \<Rightarrow> (Raised, p)
        | Inr (Some found_subtitle) \<Rightarrow>
            (case set_subtitle_file env p found_subtitle of
               (True, p') \<Rightarrow> (Returned True, p')
             | (False, p') \<Rightarrow>
                 (Returned False, p'\<lparr>subtitle_file_label := ''Error loading'',
                                       subtitle_info_bar_revealed := True\<rparr>))
        | Inr None \<Rightarrow>
            (Returned False, p\<lparr>subtitle_file_label := ''None'',
                                subtitle_info_bar_revealed := True,
                                subtitle_not_found := Some video_path\<rparr>))"

section \<open>Validation of a subtitle file the user selects\<close>

definition content_check :: "string \<Rightarrow> string \<Rightarrow> bool" where
  \<comment> \<open>the checks on the first 1000 characters, by extension\<close>
  "content_check ext content =
     (if ext = ''.srt'' then py_in ''-->'' content \<and> length (py_strip content) > 10
      else if ext = ''.vtt'' then
        (if prefix ''WEBVTT'' (py_strip content) then True
         else py_in ''-->'' content \<and> length (py_strip content) > 10)
      else if ext \<in> set [''.ssa'', ''.ass''] then
        py_in ''[Script Info]'' content \<or> (py_in ''[V4+ Styles]'' content \<or> py_in ''[Events]'' content)
      else if ext = ''.sub'' then
        py_in ''-->'' content \<or> (py_in ''{'' content \<and> py_in ''}'' content)
      else py_in ''-->'' content \<and> length (py_strip content) > 10)"

definition validate_subtitle_file :: "environment \<Rightarrow> string \<Rightarrow> bool" where
  "validate_subtitle_file env file_path =
     (if \<not> fs_exists env file_path then False
      else
        let ext = py_lower (snd (splitext file_path)) in
        if ext \<notin> set [''.srt'', ''.vtt'', ''.sub'', ''.ssa'', ''.ass''] then False
        else
          let read_check = (case fs_read env file_path of
                              None \<Rightarrow> False
                            | Some data \<Rightarrow> content_check ext (take 1000 data)) in
          case fs_getsize env file_path of
            None \<Rightarrow> read_check
          | Some file_size \<Rightarrow>
              if file_size = 0 then False
              else if file_size > 10 * 1024 * 1024 then False
              else read_check)"

datatype notice = Toast string | ErrorDialog string

definition on_subtitle_file_selected :: "environment \<Rightarrow> player \<Rightarrow> string \<Rightarrow> notice \<times> player" where
  \<comment> \<open>the handler of the file dialog, for a selected file with path \<open>path\<close>\<close>
  "on_subtitle_file_selected env p path =
     (if validate_subtitle_file env path
      then (case set_subtitle_file env p path of
              (True, p') \<Rightarrow>
                (Toast (''Loaded subtitle: '' @ basename path),
                 p'\<lparr>subtitle_button_active := True, subtitles_enabled := True\<rparr>)
            | (False, p') \<Rightarrow> (ErrorDialog ''Subtitle Load Error'', p'))
      else (ErrorDialog ''Invalid Subtitle File'', p))"

section \<open>The folder scan (\<open>LocaldemyWindow.scan_folder_thread\<close>)\<close>

text \<open>
  The directory tree under the scanned folder, every directory readable and without
  symbolic links: a directory lists its entries by name, in the order the operating
  system gives them. Anything that is not a directory is a \<open>File\<close>.
\<close>

datatype fsnode = File | Dir "(string \<times> fsnode) list"

definition VIDEO_EXTENSIONS :: "string list" where
  "VIDEO_EXTENSIONS =
     [''.mp4'', ''.mkv'', ''.avi'', ''.mov'', ''.wmv'', ''.flv'', ''.webm'', ''.m4v'',
      ''.mpg'', ''.mpeg'', ''.3gp'']"

definition file_names :: "(string \<times> fsnode) list \<Rightarrow> string list" where
  "file_names entries = map fst (filter (\<lambda>(n, node). node = File) entries)"

text \<open>
  \<open>os.walk(folder_path)\<close> with the loop's pruning \<open>dirs[:] = [d for d in dirs if not
  d.startswith('.')]\<close>: the visits in order, top-down. A visit carries the directory's path (\<open>root\<close>
  in the source, \<open>dirpath\<close> here), the names of the directories from \<open>folder_path\<close> down
  to it (what \<open>os.path.relpath(root, folder_path).split(os.path.sep)\<close> gives below the
  scanned folder, empty at the scanned folder itself) and the names of its files.
\<close>

type_synonym visit = "string \<times> string list \<times> string list"

fun walk :: "string \<Rightarrow> string list \<Rightarrow> fsnode \<Rightarrow> visit list"
  and walk_entries :: "string \<Rightarrow> string list \<Rightarrow> (string \<times> fsnode) list \<Rightarrow> visit list" where
  "walk dirpath parts File = []"
| "walk dirpath parts (Dir entries) = (dirpath, parts, file_names entries) # walk_entries dirpath parts entries"
| "walk_entries dirpath parts [] = []"
| "walk_entries dirpath parts ((name, node) # rest) =
     (if node \<noteq> File \<and> \<not> prefix ''.'' name
      then walk (path_join dirpath name) (parts @ [name]) node else [])
     @ walk_entries dirpath parts rest"

text \<open>
  The nested dictionary \<open>folder_structure\<close>: keys in insertion order; a value is a
  dictionary again, or the list of \<open>(file_path, file)\<close> pairs under the key \<open>_files\<close>.
\<close>

datatype entry = Sub "(string \<times> entry) list" | Files "(string \<times> string) list"

type_synonym folder_dict = "(string \<times> entry) list"

definition is_video :: "string \<Rightarrow> bool" where
  "is_video f = (py_lower (snd (splitext f)) \<in> set VIDEO_EXTENSIONS)"

fun add_files :: "(string \<times> string) list \<Rightarrow> folder_dict \<Rightarrow> error + folder_dict" where
  \<comment> \<open>the loop \<open>for file in video_files\<close> on the level reached\<close>
  "add_files [] d = Inr d"
| "add_files (x # xs) d =
     (case map_of d ''_files'' of
        None \<Rightarrow> add_files xs (AList.update ''_files'' (Files [x]) d)
      | Some (Files fs) \<Rightarrow> add_files xs (AList.update ''_files'' (Files (fs @ [x])) d)
      | Some (Sub sub) \<Rightarrow> Inl AttributeError)"

fun enter :: "string list \<Rightarrow> (string \<times> string) list \<Rightarrow> folder_dict \<Rightarrow> error + folder_dict" where
  \<comment> \<open>from \<open>current_level\<close>, go down \<open>path_parts\<close>, creating the dictionaries that are
      missing, and add the files at the level reached; a level that is a list (the value
      of \<open>_files\<close>) takes neither a key nor a file\<close>
  "enter [] vfiles d = add_files vfiles d"
| "enter (part # rest) vfiles d =
     (case map_of d part of
        None \<Rightarrow>
          (case enter rest vfiles [] of
             Inl e \<Rightarrow> Inl e
           | Inr sub \<Rightarrow> Inr (AList.update part (Sub sub) d))
      | Some (Sub sub) \<Rightarrow>
          (case enter rest vfiles sub of
             Inl e \<Rightarrow> Inl e
           | Inr sub' \<Rightarrow> Inr (AList.update part (Sub sub') d))
      | Some (Files fs) \<Rightarrow> (if rest = [] \<and> vfiles = [] then Inr d else Inl TypeError))"

record scan_result =
  all_files :: "(string \<times> string) list"
  folder_structure :: folder_dict
  total_files :: nat

definition video_pairs :: "string \<Rightarrow> string list \<Rightarrow> (string \<times> string) list" where
  "video_pairs dirpath files = map (\<lambda>f. (path_join dirpath f, f)) (filter is_video files)"

fun scan_visits :: "visit list \<Rightarrow> scan_result \<Rightarrow> error + scan_result" where
  \<comment> \<open>the body of the loop over the walk, without cancellation\<close>
  "scan_visits [] r = Inr r"
| "scan_visits ((dirpath, parts, files) # rest) r =
     (case enter parts (video_pairs dirpath files) (folder_structure r) of
        Inl e \<Rightarrow> Inl e
      | Inr d \<Rightarrow>
          scan_visits rest
            \<lparr>all_files = all_files r @ video_pairs dirpath files,
             folder_structure = d,
             total_files = total_files r + length (filter is_video files)\<rparr>)"

definition scan_folder :: "string \<Rightarrow> fsnode \<Rightarrow> error + scan_result" where
  \<comment> \<open>what the scan hands to \<open>build_folder_model\<close>; \<open>Inl\<close> when the loop raises\<close>
  "scan_folder folder_path tree =
     (case scan_visits (walk folder_path [] tree)
             \<lparr>all_files = [], folder_structure = [], total_files = 0\<rparr> of
        Inl e \<Rightarrow> Inl e
      | Inr r \<Rightarrow> Inr (r\<lparr>all_files := sort_key (\<lambda>x. py_lower (snd x)) (all_files r)\<rparr>))"


fun files_at :: "folder_dict \<Rightarrow> string list \<Rightarrow> (string \<times> string) list" where
  "files_at d [] = (case map_of d ''_files'' of Some (Files fs) \<Rightarrow> fs | _ \<Rightarrow> [])"
| "files_at d (p # ps) = (case map_of d p of Some (Sub sub) \<Rightarrow> files_at sub ps | _ \<Rightarrow> [])"

section \<open>The library rows (\<open>LocaldemyWindow.build_folder_model\<close>)\<close>

record video_item =
  video_id :: string
  title :: string
  details :: string
  duration :: nat
  progress :: rat
  is_folder :: bool
  file_path :: string
  indent_level :: nat
  folder_name :: "string option"   \<comment> \<open>the attribute is set on folder rows only\<close>

definition folder_marker :: string where
  \<comment> \<open>the folder sign U+1F4C1 before a folder's name, here as its four UTF-8 bytes\<close>
  "folder_marker = [CHR 0xF0, CHR 0x9F, CHR 0x93, CHR 0x81]"

function str_nat :: "nat \<Rightarrow> string" where
  \<comment> \<open>\<open>str(n)\<close>\<close>
  "str_nat n = (if n < 10 then [char_of (48 + n)] else str_nat (n div 10) @ [char_of (48 + n mod 10)])"
  by pat_completeness auto
termination
  by (relation "measure id") auto

definition new_video_item ::
  "string \<Rightarrow> string \<Rightarrow> string \<Rightarrow> nat \<Rightarrow> rat \<Rightarrow> string \<Rightarrow> video_item" where
  \<comment> \<open>\<open>VideoItem.__init__\<close>\<close>
  "new_video_item vid ttl dtl dur prog path =
     \<lparr>video_id = vid, title = ttl, details = dtl, duration = dur, progress = prog,
      is_folder = False, file_path = path, indent_level = 0, folder_name = None\<rparr>"

definition video_count :: "entry \<Rightarrow> nat" where
  \<comment> \<open>\<open>len(subfolder.get('_files', [])) if '_files' in subfolder else 0\<close>\<close>
  "video_count subfolder =
     (case subfolder of
        Files fs \<Rightarrow> 0
      | Sub d \<Rightarrow> (case map_of d ''_files'' of
                    None \<Rightarrow> 0 | Some (Files fs) \<Rightarrow> length fs | Some (Sub d') \<Rightarrow> length d'))"

definition folder_row :: "folder_dict \<Rightarrow> string \<Rightarrow> video_item" where
  "folder_row fs name =
     (new_video_item (''folder_'' @ name) (folder_marker @ '' '' @ name)
        (str_nat (case map_of fs name of None \<Rightarrow> 0 | Some sub \<Rightarrow> video_count sub) @ '' videos'')
        0 0 [])
     \<lparr>is_folder := True, folder_name := Some name, indent_level := 0\<rparr>"

definition root_header :: "nat \<Rightarrow> video_item" where
  "root_header n =
     (new_video_item ''folder_root'' (folder_marker @ '' Root Files'')
        (str_nat n @ '' videos'') 0 0 [])
     \<lparr>is_folder := True, folder_name := Some ''.'', indent_level := 0\<rparr>"

definition progress_of :: "(string \<times> rat option) list \<Rightarrow> string \<Rightarrow> rat" where
  \<comment> \<open>\<open>self.progress_data[file_path].get('percentage', 0.0)\<close> when the path is a key, else 0\<close>
  "progress_of progress_data path =
     (case map_of progress_data path of None \<Rightarrow> 0 | Some None \<Rightarrow> 0 | Some (Some pct) \<Rightarrow> pct)"

fun root_file_rows ::
  "(string \<times> rat option) list \<Rightarrow> nat \<Rightarrow> (string \<times> string) list \<Rightarrow> video_item list" where
  \<comment> \<open>the loop over the root files; \<open>n\<close> is the length of the model so far\<close>
  "root_file_rows progress_data n [] = []"
| "root_file_rows progress_data n ((path, name) # rest) =
     (new_video_item (''video_'' @ str_nat n) (fst (splitext name)) ''Root'' 0
        (progress_of progress_data path) path)
     \<lparr>indent_level := 0\<rparr>
     # root_file_rows progress_data (Suc n) rest"

definition files_value :: "entry \<Rightarrow> error + (string \<times> string) list" where
  \<comment> \<open>the pairs a loop \<open>for file_path, file_name in sorted(v, key=lambda x: x[1].lower())\<close>
      sees: those of the list, in the sorted order; a dictionary is iterated by its keys,
      which unpack as pairs only when each has two characters\<close>
  "files_value v =
     (case v of
        Files fs \<Rightarrow> Inr (sort_key (\<lambda>x. py_lower (snd x)) fs)
      | Sub d \<Rightarrow>
          if list_all (\<lambda>k. length k = 2) (map fst d)
          then Inr (map (\<lambda>k. ([k ! 0], [k ! 1]))
                      (sort_key (\<lambda>k. py_lower_char (k ! 1)) (map fst d)))
          else Inl ValueError)"

definition build_folder_model ::
  "(string \<times> rat option) list \<Rightarrow> folder_dict \<Rightarrow> error + video_item list" where
  \<comment> \<open>the rows of \<open>videos_model\<close>; \<open>Inl\<close> when the method raises and sets no model\<close>
  "build_folder_model progress_data fs =
     (let folder_names = sort (filter (\<lambda>k. k \<noteq> ''_files'') (map fst fs));
          folders = map (folder_row fs) folder_names
      in case map_of fs ''_files'' of
           None \<Rightarrow> Inr folders
         | Some v \<Rightarrow>
             if v = Files [] \<or> v = Sub [] then Inr folders
             else (case files_value v of
                     Inl e \<Rightarrow> Inl e
                   | Inr root_files \<Rightarrow>
                       let header = (if folder_names \<noteq> [] then [root_header (length root_files)] else [])
                       in Inr (folders @ header @
                               root_file_rows progress_data (length folders + length header) root_files)))"

definition library_rows :: "(string \<times> rat option) list \<Rightarrow> string \<Rightarrow> fsnode \<Rightarrow> error + video_item list" where
  \<comment> \<open>scan, then build\<close>
  "library_rows progress_data folder_path tree =
     (case scan_folder folder_path tree of
        Inl e \<Rightarrow> Inl e
      | Inr r \<Rightarrow> build_folder_model progress_data (folder_structure r))"

definition lectures_tree :: fsnode where
  \<comment> \<open>a root directory with \<open>a.mp4\<close> and the folder \<open>Lectures\<close> holding \<open>b.mkv\<close>\<close>
  "lectures_tree = Dir [(''a.mp4'', File), (''Lectures'', Dir [(''b.mkv'', File)])]"



definition row_view :: "video_item \<Rightarrow> bool \<times> string \<times> nat" where
  \<comment> \<open>kind, label and indentation of a row\<close>
  "row_view r = (is_folder r, title r, indent_level r)"

section \<open>Auxiliary definitions and the concrete inputs of the runs below\<close>

definition first_of :: "'a list \<Rightarrow> 'a option" where
  "first_of xs = (case xs of [] \<Rightarrow> None | x # _ \<Rightarrow> Some x)"

definition env_movie :: environment where
  \<comment> \<open>\<open>/v\<close> holds \<open>movie.mp4\<close>, \<open>movie.en.srt\<close> (11 000 000 bytes) and \<open>movie.srt\<close>\<close>
  "env_movie =
     \<lparr>fs_exists = (\<lambda>p. p = ''/v/movie.mp4'' \<or> p = ''/v/movie.en.srt'' \<or> p = ''/v/movie.srt'' \<or> p = ''/v''),
      fs_isdir = (\<lambda>p. p = ''/v''),
      fs_listdir = (\<lambda>p. if p = ''/v'' then Some [''movie.mp4'', ''movie.en.srt'', ''movie.srt'']
                        else None),
      fs_getsize = (\<lambda>p. Some 11000000),
      fs_read = (\<lambda>p. Some []),
      gst_accepts = (\<lambda>p. True)\<rparr>"



definition player0 :: player where
  "player0 =
     \<lparr>playbin = True, last_subtitle_check = None, subtitle_not_found = None,
      subtitle_file = None, subtitle_file_label = ''None'', subtitle_info_bar_revealed = False,
      subtitle_label = [], current_subtitle_text = None, subtitle_parser = None,
      subtitle_timer_id = 0, subtitle_button_active = False, subtitles_enabled = False\<rparr>"

section \<open>Properties of the string primitives\<close>

lemma py_split_no_occurrence: "\<not> py_in sep s \<Longrightarrow> py_split sep s = [s]"
  by (induction s) auto

lemma set_map_filter_conv: "set (List.map_filter f xs) = {y. \<exists>x \<in> set xs. f x = Some y}"
  by (induction xs) (auto split: option.splits)

lemma py_split_nonempty: "py_split sep s \<noteq> []"
  by (induction sep s rule: py_split.induct) (auto split: list.splits)

lemma py_split_skip:
  "c \<notin> set xs \<Longrightarrow>
   py_split (c # sep) (xs @ ys) = (xs @ hd (py_split (c # sep) ys)) # tl (py_split (c # sep) ys)"
proof (induction xs)
  case Nil
  then show ?case using py_split_nonempty [of "c # sep" ys] by simp
next
  case (Cons x xs)
  then have "x \<noteq> c" and ih: "py_split (c # sep) (xs @ ys) =
      (xs @ hd (py_split (c # sep) ys)) # tl (py_split (c # sep) ys)"
    by auto
  then show ?case by simp
qed

lemma py_split_char_cut:
  "c \<notin> set xs \<Longrightarrow> py_split [c] (xs @ c # ys) = xs # py_split [c] ys"
proof -
  assume a: "c \<notin> set xs"
  have "py_split [c] (c # ys) = [] # py_split [c] ys"
    by simp
  with py_split_skip [OF a, of "[]" "c # ys"] show ?thesis
    by simp
qed

lemma py_replace_skip:
  "c \<notin> set xs \<Longrightarrow> py_replace (c # old) new (xs @ ys) = xs @ py_replace (c # old) new ys"
  by (induction xs) auto

lemma py_strip_id:
  assumes "s \<noteq> []" "\<not> py_isspace (hd s)" "\<not> py_isspace (last s)"
  shows "py_strip s = s"
proof -
  from assms(1,2) have a: "dropWhile py_isspace s = s"
    by (cases s) auto
  from assms(1,3) have "dropWhile py_isspace (rev s) = rev s"
    by (cases "rev s") (auto simp: hd_rev [symmetric])
  with a show ?thesis
    by (simp add: py_strip_def)
qed

section \<open>The SRT parser: order of the cues\<close>

text \<open>
  C3 (as the code has it): for every input string, with time fields that convert to
  finite numbers, the cues the SRT parser returns are sorted ascending by their start
  time, and every cue is the conversion of one block of the input. The parser takes the
  start and the end from the two tokens of the timing line in that order and never
  compares them.
\<close>

theorem C3_srt_parse_sorted:
  "sorted (map sub_start (srt_parse cv content)) \<and>
   (\<forall>c \<in> set (srt_parse cv content).
      \<exists>block \<in> set (srt_blocks content). srt_parse_block cv block = Some c)"
  by (auto simp: srt_parse_def set_map_filter_conv)

theorem C3_srt_parse_sorted_witness:
  "sorted (map sub_start (srt_parse dec_builtins
      (''1'' @ [CHR 0x0A] @ ''00:00:03,000 --> 00:00:04,000'' @ [CHR 0x0A] @ ''World''
       @ [CHR 0x0A, CHR 0x0A] @
       ''2'' @ [CHR 0x0A] @ ''00:00:01,000 --> 00:00:02,000'' @ [CHR 0x0A] @ ''Hello'')))
   \<and> srt_parse dec_builtins
      (''1'' @ [CHR 0x0A] @ ''00:00:03,000 --> 00:00:04,000'' @ [CHR 0x0A] @ ''World''
       @ [CHR 0x0A, CHR 0x0A] @
       ''2'' @ [CHR 0x0A] @ ''00:00:01,000 --> 00:00:02,000'' @ [CHR 0x0A] @ ''Hello'')
     = [\<lparr>sub_start = 1000, sub_end = 2000, sub_text = ''Hello''\<rparr>,
        \<lparr>sub_start = 3000, sub_end = 4000, sub_text = ''World''\<rparr>]"
proof -
  have "srt_parse dec_builtins
      (''1'' @ [CHR 0x0A] @ ''00:00:03,000 --> 00:00:04,000'' @ [CHR 0x0A] @ ''World''
       @ [CHR 0x0A, CHR 0x0A] @
       ''2'' @ [CHR 0x0A] @ ''00:00:01,000 --> 00:00:02,000'' @ [CHR 0x0A] @ ''Hello'')
     = [\<lparr>sub_start = 1000, sub_end = 2000, sub_text = ''Hello''\<rparr>,
        \<lparr>sub_start = 3000, sub_end = 4000, sub_text = ''World''\<rparr>]"
    by code_simp
  with C3_srt_parse_sorted [of dec_builtins
      "''1'' @ [CHR 0x0A] @ ''00:00:03,000 --> 00:00:04,000'' @ [CHR 0x0A] @ ''World''
       @ [CHR 0x0A, CHR 0x0A] @
       ''2'' @ [CHR 0x0A] @ ''00:00:01,000 --> 00:00:02,000'' @ [CHR 0x0A] @ ''Hello''"]
  show ?thesis by blast
qed

text \<open>
  A timing line whose end precedes its start is accepted as it is: the block
  \<open>1 / 00:00:05,000 --> 00:00:01,000 / Hi\<close> gives a cue with start 5000 and end 1000.
\<close>

theorem C3_start_after_end_counterexample:
  "srt_parse dec_builtins
     (''1'' @ [CHR 0x0A] @ ''00:00:05,000 --> 00:00:01,000'' @ [CHR 0x0A] @ ''Hi'')
     = [\<lparr>sub_start = 5000, sub_end = 1000, sub_text = ''Hi''\<rparr>]
   \<and> \<not> sub_start \<lparr>sub_start = 5000, sub_end = 1000, sub_text = ''Hi''\<rparr>
        \<le> sub_end \<lparr>sub_start = 5000, sub_end = 1000, sub_text = ''Hi''\<rparr>"
  by code_simp

section \<open>Cue lookup\<close>

text \<open>
  The lookup of both parsers is a scan for the first cue, in track order, whose interval
  contains the timestamp, both ends included; it returns the empty string when there is
  none, and otherwise the cue's text passed through the formatter.
\<close>

lemma get_subtitle_at_time_first_match:
  "srt_get_subtitle_at_time track t =
     (case find (\<lambda>s. sub_start s \<le> t \<and> t \<le> sub_end s) track of
        None \<Rightarrow> [] | Some s \<Rightarrow> srt_format_subtitle_text (sub_text s))
   \<and> vtt_get_subtitle_at_time track t =
     (case find (\<lambda>s. sub_start s \<le> t \<and> t \<le> sub_end s) track of
        None \<Rightarrow> [] | Some s \<Rightarrow> vtt_format_subtitle_text (sub_text s))"
  by (induction track) auto

text \<open>
  C4: the lookup is to return the text of the first cue whose interval contains the
  timestamp. The code returns that text already formatted, and the display, which
  expects the text, formats what it gets once more. For the one cue \<open>&\<close> at a
  timestamp inside its interval the lookup returns \<open>&amp;\<close> and the label is given
  the markup of \<open>&amp;amp;\<close>; for the SRT cue \<open>{b}x{/b}\<close> the lookup returns
  \<open><b>x</b>\<close> and the label is given these tags escaped, so they are shown as text.
\<close>

theorem C4_lookup_returns_formatted_text:
  "srt_get_subtitle_at_time [\<lparr>sub_start = 0, sub_end = 10, sub_text = ''&''\<rparr>] 5 = ''&amp;''
   \<and> vtt_get_subtitle_at_time [\<lparr>sub_start = 0, sub_end = 10, sub_text = ''&''\<rparr>] 5 = ''&amp;''
   \<and> srt_update_subtitle_display [\<lparr>sub_start = 0, sub_end = 10, sub_text = ''&''\<rparr>] 5 None
       = (Some ''&amp;'', Some (Markup ''<span>&amp;amp;</span>''))
   \<and> vtt_update_subtitle_display [\<lparr>sub_start = 0, sub_end = 10, sub_text = ''&''\<rparr>] 5 None
       = (Some ''&amp;'', Some (Markup ''<span>&amp;amp;</span>''))
   \<and> srt_get_subtitle_at_time [\<lparr>sub_start = 0, sub_end = 10, sub_text = ''{b}x{/b}''\<rparr>] 5
       = ''<b>x</b>''
   \<and> srt_update_subtitle_display [\<lparr>sub_start = 0, sub_end = 10, sub_text = ''{b}x{/b}''\<rparr>] 5 None
       = (Some ''<b>x</b>'', Some (Markup ''<span>&lt;b&gt;x&lt;/b&gt;</span>''))"
  by code_simp

section \<open>The SRT parser: timing lines\<close>

text \<open>
  C9: a block of the SRT parser whose second line does not contain the separator
  \<open>' --> '\<close> (the arrow with one space on each side) is skipped and gives no cue,
  whatever else the line contains.
\<close>

theorem C9_srt_timing_separator:
  assumes "\<not> py_in '' --> '' (py_split [CHR 0x0A] block ! 1)"
  shows "srt_parse_block cv block = None"
  using py_split_no_occurrence [OF assms] by (simp add: srt_parse_block_def Let_def)

theorem C9_srt_timing_separator_witness:
  "\<not> py_in '' --> ''
       (py_split [CHR 0x0A]
          (''1'' @ [CHR 0x0A] @ ''00:00:01,000-->00:00:02,000'' @ [CHR 0x0A] @ ''Hi'') ! 1)
   \<and> srt_parse_block dec_builtins
       (''1'' @ [CHR 0x0A] @ ''00:00:01,000-->00:00:02,000'' @ [CHR 0x0A] @ ''Hi'') = None"
proof -
  have h: "\<not> py_in '' --> ''
       (py_split [CHR 0x0A]
          (''1'' @ [CHR 0x0A] @ ''00:00:01,000-->00:00:02,000'' @ [CHR 0x0A] @ ''Hi'') ! 1)"
    by code_simp
  from C9_srt_timing_separator [OF h] h show ?thesis by blast
qed

text \<open>
  C10 (as the code has it): the SRT time conversion returns 0 and does not raise for a
  token that does not have exactly three colon-separated fields, so a block with at
  least three lines and two such tokens gives a cue with start 0 and end 0. On a token
  with three fields the conversion raises when a field fails its numeric conversion,
  and also when the fields convert but the hours and minutes together are too large
  to become a float (OverflowError); it raises in no other case. A block with at least
  three lines and two time tokens is skipped exactly when one of its two conversions
  raises.
\<close>

theorem C10_srt_time_to_ms_field_count:
  "(length (srt_time_fields tok) \<noteq> 3 \<longrightarrow> srt_time_to_ms cv tok = Some 0)
   \<and> (srt_time_to_ms cv tok = None \<longleftrightarrow>
        length (srt_time_fields tok) = 3 \<and>
        (py_int cv (srt_time_fields tok ! 0) = None \<or> py_int cv (srt_time_fields tok ! 1) = None
         \<or> py_float cv (srt_time_fields tok ! 2) = None
         \<or> (\<exists>hours minutes.
               py_int cv (srt_time_fields tok ! 0) = Some hours \<and>
               py_int cv (srt_time_fields tok ! 1) = Some minutes \<and>
               int_to_float cv (hours * 3600 + minutes * 60) = None)))
   \<and> (3 \<le> length (py_split [CHR 0x0A] block) \<and>
       py_split '' --> '' (py_split [CHR 0x0A] block ! 1) = [a, b] \<and>
       length (srt_time_fields (py_strip a)) \<noteq> 3 \<and> length (srt_time_fields (py_strip b)) \<noteq> 3
       \<longrightarrow> srt_parse_block cv block =
             Some \<lparr>sub_start = 0, sub_end = 0,
                   sub_text = py_join [CHR 0x0A] (drop 2 (py_split [CHR 0x0A] block))\<rparr>)
   \<and> (3 \<le> length (py_split [CHR 0x0A] block) \<and>
       py_split '' --> '' (py_split [CHR 0x0A] block ! 1) = [a, b]
       \<longrightarrow> (srt_parse_block cv block = None \<longleftrightarrow>
              srt_time_to_ms cv (py_strip a) = None \<or> srt_time_to_ms cv (py_strip b) = None))"
  by (auto simp: srt_time_to_ms_def srt_parse_block_def Let_def split: option.splits)

theorem C10_srt_time_to_ms_field_count_witness:
  "length (srt_time_fields ''12,5'') \<noteq> 3
   \<and> srt_time_to_ms dec_builtins ''12,5'' = Some 0
   \<and> 3 \<le> length (py_split [CHR 0x0A] (''1'' @ [CHR 0x0A] @ ''12,5 --> 01:02'' @ [CHR 0x0A] @ ''Hi''))
   \<and> py_split '' --> ''
        (py_split [CHR 0x0A] (''1'' @ [CHR 0x0A] @ ''12,5 --> 01:02'' @ [CHR 0x0A] @ ''Hi'') ! 1)
      = [''12,5'', ''01:02'']
   \<and> srt_parse_block dec_builtins (''1'' @ [CHR 0x0A] @ ''12,5 --> 01:02'' @ [CHR 0x0A] @ ''Hi'')
      = Some \<lparr>sub_start = 0, sub_end = 0, sub_text = ''Hi''\<rparr>"
proof -
  have h1: "length (srt_time_fields ''12,5'') \<noteq> 3"
    by code_simp
  have h2: "3 \<le> length (py_split [CHR 0x0A] (''1'' @ [CHR 0x0A] @ ''12,5 --> 01:02'' @ [CHR 0x0A] @ ''Hi''))"
    by code_simp
  have h3: "py_split '' --> ''
        (py_split [CHR 0x0A] (''1'' @ [CHR 0x0A] @ ''12,5 --> 01:02'' @ [CHR 0x0A] @ ''Hi'') ! 1)
      = [''12,5'', ''01:02'']"
    by code_simp
  have h4: "length (srt_time_fields (py_strip ''12,5'')) \<noteq> 3"
    by code_simp
  have h5: "length (srt_time_fields (py_strip ''01:02'')) \<noteq> 3"
    by code_simp
  have h6: "py_join [CHR 0x0A]
        (drop 2 (py_split [CHR 0x0A] (''1'' @ [CHR 0x0A] @ ''12,5 --> 01:02'' @ [CHR 0x0A] @ ''Hi'')))
      = ''Hi''"
    by code_simp
  from C10_srt_time_to_ms_field_count
    [of "''12,5''" dec_builtins "''1'' @ [CHR 0x0A] @ ''12,5 --> 01:02'' @ [CHR 0x0A] @ ''Hi''"
        "''12,5''" "''01:02''"]
    h1 h2 h3 h4 h5 h6
  show ?thesis by simp
qed


text \<open>
  A block is also skipped when every field converts: with an hours field of 401 digits
  \<open>int\<close> and \<open>float\<close> succeed on the three fields, the sum of hours and minutes is
  beyond the range of doubles, the conversion raises OverflowError and the block gives
  no cue.
\<close>

lemma dec_nat_zeros: "dec_nat acc (replicate k CHR ''0'') = Some (acc * 10 ^ k)"
  by (induction k arbitrary: acc) (simp_all add: digit_val_def)

lemma dec_int_long_hours: "dec_int long_hours = Some (10 ^ 400)"
proof -
  have "dec_nat 0 long_hours = dec_nat 1 (replicate 400 CHR ''0'')"
    by (simp add: long_hours_def digit_val_def)
  then show ?thesis
    by (simp add: dec_int_def dec_nat_zeros) (simp add: long_hours_def)
qed

lemma set_long_hours: "set long_hours = {CHR ''1'', CHR ''0''}"
  by (simp add: long_hours_def)

lemma int_to_double_overflow: "double_overflow_bound \<le> \<bar>n\<bar> \<Longrightarrow> int_to_double n = None"
  by (simp add: int_to_double_def double_overflow_bound_def)

lemma long_hours_overflow: "int_to_double (10 ^ 400 * 3600 + 0 * 60) = None"
  by (rule int_to_double_overflow) (simp add: double_overflow_bound_def)

lemma long_hours_fields:
  "srt_time_fields (long_hours @ '':00:00,000'') = [long_hours, ''00'', ''00.000'']"
proof -
  have r: "py_replace '','' ''.'' (long_hours @ '':00:00,000'') = long_hours @ '':00:00.000''"
    using py_replace_skip [of "CHR '',''" long_hours "[]" "''.''" "'':00:00,000''"]
    by (simp add: set_long_hours)
  have "py_split '':'' (long_hours @ CHR '':'' # ''00:00.000'') = long_hours # py_split '':'' ''00:00.000''"
    by (rule py_split_char_cut) (simp add: set_long_hours)
  moreover have "py_split '':'' ''00:00.000'' = [''00'', ''00.000'']"
    by code_simp
  ultimately show ?thesis
    by (simp add: srt_time_fields_def r)
qed

lemma long_hours_time: "srt_time_to_ms dec_builtins (long_hours @ '':00:00,000'') = None"
proof -
  have "dec_int ''00'' = Some 0" "dec_float ''00.000'' = Some 0"
    by code_simp+
  then show ?thesis
    using long_hours_overflow
    by (simp add: srt_time_to_ms_def long_hours_fields dec_builtins_def dec_int_long_hours)
qed

lemma long_hours_block_lines:
  "py_split [CHR 0x0A] long_hours_block =
     [''1'', long_hours @ '':00:00,000 --> 00:00:01,000'', ''Hi'']"
proof -
  have a: "py_split [CHR 0x0A] (''1'' @ CHR 0x0A # (long_hours @ '':00:00,000 --> 00:00:01,000'' @ CHR 0x0A # ''Hi''))
      = ''1'' # py_split [CHR 0x0A] (long_hours @ '':00:00,000 --> 00:00:01,000'' @ CHR 0x0A # ''Hi'')"
    by (rule py_split_char_cut) simp
  have b: "py_split [CHR 0x0A] ((long_hours @ '':00:00,000 --> 00:00:01,000'') @ CHR 0x0A # ''Hi'')
      = (long_hours @ '':00:00,000 --> 00:00:01,000'') # py_split [CHR 0x0A] ''Hi''"
    by (rule py_split_char_cut) (simp add: set_long_hours)
  have c: "py_split [CHR 0x0A] ''Hi'' = [''Hi'']"
    by code_simp
  from a b c show ?thesis
    by (simp add: long_hours_block_def)
qed

lemma long_hours_block_times:
  "py_split '' --> '' (long_hours @ '':00:00,000 --> 00:00:01,000'') =
     [long_hours @ '':00:00,000'', ''00:00:01,000'']"
proof -
  have "py_split '' --> '' '':00:00,000 --> 00:00:01,000'' = ['':00:00,000'', ''00:00:01,000'']"
    by code_simp
  with py_split_skip [of "CHR '' ''" long_hours "''--> ''" "'':00:00,000 --> 00:00:01,000''"]
  show ?thesis
    by (simp add: set_long_hours)
qed

lemma long_hours_strip: "py_strip (long_hours @ '':00:00,000'') = long_hours @ '':00:00,000''"
  by (rule py_strip_id) (simp_all add: long_hours_def py_isspace_def)

lemma long_hours_block_skipped: "srt_parse_block dec_builtins long_hours_block = None"
  by (simp add: srt_parse_block_def long_hours_block_lines long_hours_block_times
      long_hours_strip long_hours_time)

theorem C10_overflow_skips_block_counterexample:
  "srt_time_fields (long_hours @ '':00:00,000'') = [long_hours, ''00'', ''00.000'']
   \<and> py_int dec_builtins long_hours = Some (10 ^ 400)
   \<and> py_int dec_builtins ''00'' = Some 0
   \<and> py_float dec_builtins ''00.000'' = Some 0
   \<and> srt_time_to_ms dec_builtins (long_hours @ '':00:00,000'') = None
   \<and> srt_parse_block dec_builtins long_hours_block = None"
proof -
  have "dec_int ''00'' = Some 0" "dec_float ''00.000'' = Some 0"
    by code_simp+
  then have "py_int dec_builtins long_hours = Some (10 ^ 400)"
    "py_int dec_builtins ''00'' = Some 0" "py_float dec_builtins ''00.000'' = Some 0"
    by (simp_all add: dec_builtins_def dec_int_long_hours)
  then show ?thesis
    by (simp add: long_hours_fields long_hours_time long_hours_block_skipped)
qed

section \<open>Display formatting\<close>

lemma py_replace_char: "py_replace [a] new s = concat (map (\<lambda>c. if c = a then new else [c]) s)"
  by (induction s) auto

lemma py_replace_absent_char: "a \<notin> set s \<Longrightarrow> py_replace (a # old) new s = s"
  by (induction s) auto

lemma py_replace_same_aux: "new = old \<Longrightarrow> py_replace old new s = s"
proof (induction old new s rule: py_replace.induct)
  case (1 old new)
  show ?case by simp
next
  case (2 old new c cs)
  show ?case
  proof (cases "old \<noteq> [] \<and> prefix old (c # cs)")
    case True
    then obtain r where r: "c # cs = old @ r"
      by (auto simp: prefix_def)
    have d: "drop (length old) (c # cs) = r"
      by (simp only: r append_eq_conv_conj) simp
    have "py_replace old new (drop (length old) (c # cs)) = drop (length old) (c # cs)"
      using "2.IH"(1) [OF True "2.prems"] .
    then have ih: "py_replace old new r = r"
      by (simp only: d)
    have "py_replace old new (c # cs) = new @ py_replace old new (drop (length old) (c # cs))"
      using True by simp
    also have "\<dots> = old @ r"
      using ih "2.prems" by (simp only: d)
    finally show ?thesis
      by (simp only: r)
  next
    case False
    have "py_replace old new cs = cs"
      using "2.IH"(2) [OF False "2.prems"] .
    moreover have "py_replace old new (c # cs) = c # py_replace old new cs"
      using False by auto
    ultimately show ?thesis
      by (simp only:)
  qed
qed

lemma py_replace_same: "py_replace old old s = s"
  by (rule py_replace_same_aux) (rule refl)

lemma escape_markup_Cons: "escape_markup (c # t) = esc_all c @ escape_markup t"
  by (simp add: escape_markup_def esc_all_def py_replace_char)

lemma escape_markup_conv: "escape_markup t = concat (map esc_all t)"
  by (induction t) (simp_all add: escape_markup_Cons, simp add: escape_markup_def)

lemma vtt_format_conv: "vtt_format_subtitle_text t = escape_markup t"
  by (simp add: vtt_format_subtitle_text_def escape_markup_def vtt_allowed_tags_def py_replace_same)

lemma lt_not_in_esc_all: "CHR ''<'' \<notin> set (esc_all c)"
  by (simp add: esc_all_def)

lemma lt_not_in_escape_markup: "CHR ''<'' \<notin> set (escape_markup t)"
  by (simp add: escape_markup_conv lt_not_in_esc_all)

text \<open>
  C7: the display formatting is to escape \<open>&\<close>, \<open><\<close> and \<open>>\<close> and then to restore
  the inline tags of the whitelist, so that the formatted text holds tags around the
  plain text. The SRT formatter does so: \<open>{b}x{/b}\<close> becomes \<open><b>x</b>\<close>. The WebVTT
  formatter does not: its loop over \<open>b\<close>, \<open>i\<close>, \<open>u\<close>, \<open>c\<close> replaces each tag by
  itself, after the escaping has removed every \<open><\<close>, so its result is the escaped text
  for every cue text and never holds a tag; \<open><b>x</b>\<close> becomes
  \<open>&lt;b&gt;x&lt;/b&gt;\<close>.
\<close>

theorem C7_vtt_tags_stay_escaped:
  "vtt_format_subtitle_text ''<b>x</b>'' = ''&lt;b&gt;x&lt;/b&gt;''
   \<and> srt_format_subtitle_text ''{b}x{/b}'' = ''<b>x</b>''
   \<and> vtt_format_subtitle_text t = escape_markup t
   \<and> CHR ''<'' \<notin> set (vtt_format_subtitle_text t)"
proof -
  have "vtt_format_subtitle_text ''<b>x</b>'' = ''&lt;b&gt;x&lt;/b&gt;''"
    by code_simp
  moreover have "srt_format_subtitle_text ''{b}x{/b}'' = ''<b>x</b>''"
    by code_simp
  ultimately show ?thesis
    by (simp add: vtt_format_conv lt_not_in_escape_markup)
qed

section \<open>The subtitle path search\<close>








lemma first_of_None_iff: "first_of xs = None \<longleftrightarrow> xs = []"
  by (cases xs) (simp_all add: first_of_def)


















lemma find_subtitle_en_srt:
  assumes "fs_exists env (fst (splitext vp) @ ''.en.srt'')"
  shows "find_subtitle env vp = Inr (Some (fst (splitext vp) @ ''.en.srt''))"
proof -
  have "pattern_lang env (fst (splitext vp)) ''.'' = Some (fst (splitext vp) @ ''.en.srt'')"
    using assms by (simp add: pattern_lang_def language_codes_def subtitle_extensions_def)
  then show ?thesis
    by (simp add: find_subtitle_def Let_def)
qed


lemma splitext_movie: "splitext ''/v/movie.mp4'' = (''/v/movie'', ''.mp4'')"
  by code_simp













section \<open>Repeated requests and validation\<close>

lemma set_subtitle_file_last_check:
  "last_subtitle_check (snd (set_subtitle_file env p path)) = last_subtitle_check p"
  by (simp add: set_subtitle_file_def Let_def split: option.splits)

lemma load_subtitles_last_check:
  assumes "video_path \<noteq> []"
  shows "last_subtitle_check (snd (load_subtitles env p video_path)) = Some video_path"
proof (cases "last_subtitle_check p = Some video_path")
  case True
  then show ?thesis
    using assms by (simp add: load_subtitles_def)
next
  case False
  let ?p = "p\<lparr>last_subtitle_check := Some video_path, subtitle_file := None,
               subtitle_label := [], current_subtitle_text := None\<rparr>"
  show ?thesis
  proof (cases "find_subtitle env video_path")
    case (Inl e)
    then show ?thesis
      using assms False by (simp add: load_subtitles_def)
  next
    case (Inr r)
    show ?thesis
    proof (cases r)
      case None
      then show ?thesis
        using assms False Inr by (simp add: load_subtitles_def)
    next
      case (Some found)
      obtain b p' where s: "set_subtitle_file env ?p found = (b, p')"
        by (cases "set_subtitle_file env ?p found")
      have "last_subtitle_check p' = Some video_path"
        using set_subtitle_file_last_check [of env ?p found] s by simp
      then show ?thesis
        using assms False Inr Some s by (cases b) (simp_all add: load_subtitles_def)
    qed
  qed
qed

lemma load_subtitles_again:
  "load_subtitles env' (snd (load_subtitles env p video_path)) video_path
     = (Returned False, snd (load_subtitles env p video_path))"
proof (cases "video_path = []")
  case True
  then show ?thesis
    by (simp add: load_subtitles_def)
next
  case False
  then show ?thesis
    using load_subtitles_last_check [OF False, of env p]
    by (simp add: load_subtitles_def [of env'])
qed

lemma find_subtitle_env_movie:
  "find_subtitle env_movie ''/v/movie.mp4'' = Inr (Some ''/v/movie.en.srt'')"
proof -
  have "fs_exists env_movie (fst (splitext ''/v/movie.mp4'') @ ''.en.srt'')"
    by (simp add: splitext_movie env_movie_def)
  then show ?thesis
    using find_subtitle_en_srt [of env_movie "''/v/movie.mp4''"] by (simp add: splitext_movie)
qed

lemma basename_movie: "basename ''/v/movie.en.srt'' = ''movie.en.srt''"
  by code_simp

lemma load_subtitles_env_movie:
  "load_subtitles env_movie player0 ''/v/movie.mp4'' =
     (Returned True,
      player0\<lparr>last_subtitle_check := Some ''/v/movie.mp4'',
              subtitle_file := Some ''/v/movie.en.srt'',
              subtitle_file_label := ''movie.en.srt'',
              subtitle_info_bar_revealed := True,
              subtitle_button_active := True,
              subtitles_enabled := True\<rparr>)"
proof -
  let ?p = "player0\<lparr>last_subtitle_check := Some ''/v/movie.mp4'', subtitle_file := None,
                     subtitle_label := [], current_subtitle_text := None\<rparr>"
  have s: "set_subtitle_file env_movie ?p ''/v/movie.en.srt'' =
     (True,
      player0\<lparr>last_subtitle_check := Some ''/v/movie.mp4'',
              subtitle_file := Some ''/v/movie.en.srt'',
              subtitle_file_label := ''movie.en.srt'',
              subtitle_info_bar_revealed := True,
              subtitle_button_active := True,
              subtitles_enabled := True\<rparr>)"
    by (simp add: set_subtitle_file_def basename_movie env_movie_def player0_def)
  have n: "last_subtitle_check player0 \<noteq> Some ''/v/movie.mp4''"
    by (simp add: player0_def)
  show ?thesis
    by (simp add: load_subtitles_def find_subtitle_env_movie Let_def s n)
qed

text \<open>
  C6 (as the code has it): a second request for the path of the first one is a no-op:
  it searches nothing, leaves the player's state as the first request left it, and
  returns False, whatever the first request returned and whatever the file system holds
  by then.
\<close>

theorem C6_second_request_is_noop:
  "load_subtitles env' (snd (load_subtitles env p video_path)) video_path
     = (Returned False, snd (load_subtitles env p video_path))"
  by (rule load_subtitles_again)

theorem C6_second_request_is_noop_witness:
  "load_subtitles env_movie (snd (load_subtitles env_movie player0 ''/v/movie.mp4'')) ''/v/movie.mp4''
     = (Returned False, snd (load_subtitles env_movie player0 ''/v/movie.mp4''))
   \<and> subtitle_file (snd (load_subtitles env_movie player0 ''/v/movie.mp4'')) = Some ''/v/movie.en.srt''"
  using C6_second_request_is_noop [of env_movie env_movie player0 "''/v/movie.mp4''"]
  by (simp add: load_subtitles_env_movie)

text \<open>
  The second request does not return what the first returned: with \<open>movie.en.srt\<close>
  beside \<open>movie.mp4\<close> the first request returns True and the second returns False.
\<close>

theorem C6_outcome_differs_counterexample:
  "fst (load_subtitles env_movie player0 ''/v/movie.mp4'') = Returned True
   \<and> fst (load_subtitles env_movie (snd (load_subtitles env_movie player0 ''/v/movie.mp4''))
            ''/v/movie.mp4'') = Returned False"
proof -
  have "fst (load_subtitles env_movie player0 ''/v/movie.mp4'') = Returned True"
    by (simp add: load_subtitles_env_movie)
  moreover have "fst (load_subtitles env_movie
       (snd (load_subtitles env_movie player0 ''/v/movie.mp4'')) ''/v/movie.mp4'') = Returned False"
    by (simp only: load_subtitles_again fst_conv)
  ultimately show ?thesis
    by (rule conjI)
qed

lemma validate_rejects_by_size:
  assumes "fs_getsize env path = Some n" and "n = 0 \<or> 10 * 1024 * 1024 < n"
  shows "validate_subtitle_file (env\<lparr>fs_read := r\<rparr>) path = False"
  using assms by (auto simp: validate_subtitle_file_def Let_def)

text \<open>
  C5 (as the code has it): the validation of a subtitle file the user selects rejects
  every file whose size is 0 bytes or more than 10 MB, whatever the file holds (the
  content is not consulted); the handler then shows the error \<open>Invalid Subtitle File\<close>
  and leaves the player's state as it was. An empty file is also rejected, with the
  state unchanged, by \<open>set_subtitle_file\<close>, which the automatic search calls without the
  validation.
\<close>

theorem C5_validation_rejects_by_size:
  assumes "fs_getsize env path = Some n" and "n = 0 \<or> 10 * 1024 * 1024 < n"
  shows "validate_subtitle_file (env\<lparr>fs_read := r\<rparr>) path = False
    \<and> on_subtitle_file_selected env p path = (ErrorDialog ''Invalid Subtitle File'', p)
    \<and> (n = 0 \<longrightarrow> set_subtitle_file env p path = (False, p))"
proof (intro conjI impI)
  show "validate_subtitle_file (env\<lparr>fs_read := r\<rparr>) path = False"
    using assms by (rule validate_rejects_by_size)
  have "validate_subtitle_file (env\<lparr>fs_read := fs_read env\<rparr>) path = False"
    using assms by (rule validate_rejects_by_size)
  then show "on_subtitle_file_selected env p path = (ErrorDialog ''Invalid Subtitle File'', p)"
    by (simp add: on_subtitle_file_selected_def)
  assume "n = 0"
  then show "set_subtitle_file env p path = (False, p)"
    using assms(1) by (simp add: set_subtitle_file_def)
qed

theorem C5_validation_rejects_by_size_witness:
  "fs_getsize env_movie ''/v/movie.en.srt'' = Some 11000000
   \<and> (10 * 1024 * 1024 < (11000000::nat))
   \<and> validate_subtitle_file (env_movie\<lparr>fs_read := (\<lambda>p. Some ''1'')\<rparr>) ''/v/movie.en.srt'' = False
   \<and> on_subtitle_file_selected env_movie player0 ''/v/movie.en.srt''
       = (ErrorDialog ''Invalid Subtitle File'', player0)"
proof -
  have h1: "fs_getsize env_movie ''/v/movie.en.srt'' = Some 11000000"
    by (simp add: env_movie_def)
  have h2: "(11000000::nat) = 0 \<or> 10 * 1024 * 1024 < (11000000::nat)"
    by simp
  from C5_validation_rejects_by_size [OF h1 h2, of "\<lambda>p. Some ''1''" player0] h1
  show ?thesis by simp
qed

text \<open>
  The automatic search does not apply the 10 MB bound: \<open>movie.en.srt\<close> of 11 000 000
  bytes beside \<open>movie.mp4\<close> is found and set as the subtitle file.
\<close>

theorem C5_automatic_path_counterexample:
  "fs_getsize env_movie ''/v/movie.en.srt'' = Some 11000000
   \<and> (10 * 1024 * 1024 < (11000000::nat))
   \<and> fst (load_subtitles env_movie player0 ''/v/movie.mp4'') = Returned True
   \<and> subtitle_file (snd (load_subtitles env_movie player0 ''/v/movie.mp4''))
       = Some ''/v/movie.en.srt''"
  by (simp add: load_subtitles_env_movie) (simp add: env_movie_def)

section \<open>The folder scan\<close>
















section \<open>The library rows\<close>

lemma row_view_folder_row: "row_view (folder_row fs name) = (True, folder_marker @ '' '' @ name, 0)"
  by (simp add: row_view_def folder_row_def new_video_item_def)

lemma row_view_root_header: "row_view (root_header n) = (True, folder_marker @ '' Root Files'', 0)"
  by (simp add: row_view_def root_header_def new_video_item_def)

lemma row_view_root_file_rows:
  "map row_view (root_file_rows progress_data n xs) =
     map (\<lambda>(path, name). (False, fst (splitext name), 0)) xs"
  by (induction xs arbitrary: n) (auto simp: row_view_def new_video_item_def)

lemma sort_eq_Nil: "sort xs = [] \<longleftrightarrow> xs = []"
proof
  assume "sort xs = []"
  then have "length (sort xs) = 0" by simp
  then show "xs = []" by simp
qed simp

lemma build_folder_model_views:
  assumes "\<forall>d. map_of fs ''_files'' \<noteq> Some (Sub d)"
  shows "\<exists>rows. build_folder_model progress_data fs = Inr rows \<and>
     map row_view rows =
       map (\<lambda>name. (True, folder_marker @ '' '' @ name, 0))
         (sort (filter (\<lambda>k. k \<noteq> ''_files'') (map fst fs)))
       @ (if files_at fs [] = [] then []
          else (if filter (\<lambda>k. k \<noteq> ''_files'') (map fst fs) = [] then []
                else [(True, folder_marker @ '' Root Files'', 0)])
               @ map (\<lambda>(path, name). (False, fst (splitext name), 0))
                   (sort_key (\<lambda>x. py_lower (snd x)) (files_at fs [])))"
proof (cases "map_of fs ''_files''")
  case None
  then show ?thesis
    by (simp add: build_folder_model_def Let_def row_view_folder_row comp_def)
next
  case (Some v)
  with assms obtain l where v: "v = Files l"
    by (cases v) auto
  show ?thesis
  proof (cases "l = []")
    case True
    with Some v show ?thesis
      by (simp add: build_folder_model_def Let_def row_view_folder_row comp_def)
  next
    case False
    with Some v show ?thesis
      by (simp add: build_folder_model_def Let_def files_value_def row_view_folder_row
          row_view_root_header row_view_root_file_rows comp_def sort_eq_Nil)
  qed
qed

lemma library_rows_lectures_tree:
  "library_rows [] ''/root'' lectures_tree =
     Inr [\<lparr>video_id = ''folder_Lectures'', title = folder_marker @ '' Lectures'',
           details = ''1 videos'', duration = 0, progress = 0, is_folder = True,
           file_path = [], indent_level = 0, folder_name = Some ''Lectures''\<rparr>,
          \<lparr>video_id = ''folder_root'', title = folder_marker @ '' Root Files'',
           details = ''1 videos'', duration = 0, progress = 0, is_folder = True,
           file_path = [], indent_level = 0, folder_name = Some ''.''\<rparr>,
          \<lparr>video_id = ''video_2'', title = ''a'', details = ''Root'', duration = 0,
           progress = 0, is_folder = False, file_path = ''/root/a.mp4'', indent_level = 0,
           folder_name = None\<rparr>]"
  by code_simp

text \<open>
  C1 (as the code has it): for a root directory with the file \<open>a.mp4\<close> and the folder
  \<open>Lectures\<close> holding \<open>b.mkv\<close>, the rows are, in order: a Folder row for \<open>Lectures\<close>
  at indent 0, the synthetic \<open>Root Files\<close> folder row at indent 0, and a Video row for
  \<open>a\<close> at indent 0. In general the rows are one Folder row at indent 0 for each
  top-level folder, in the sorted order of the names, with nothing of the folder's
  content after it, then, when the root has files, the \<open>Root Files\<close> row (only when
  there is a folder) and the root's files at indent 0, sorted by lower-cased file name.
\<close>

theorem C1_library_rows:
  "map_sum id (map row_view) (library_rows [] ''/root'' lectures_tree) =
     Inr [(True, folder_marker @ '' Lectures'', 0),
          (True, folder_marker @ '' Root Files'', 0),
          (False, ''a'', 0)]
   \<and> ((\<forall>d. map_of fs ''_files'' \<noteq> Some (Sub d)) \<longrightarrow>
       (\<exists>rows. build_folder_model progress_data fs = Inr rows \<and>
         map row_view rows =
           map (\<lambda>name. (True, folder_marker @ '' '' @ name, 0))
             (sort (filter (\<lambda>k. k \<noteq> ''_files'') (map fst fs)))
           @ (if files_at fs [] = [] then []
              else (if filter (\<lambda>k. k \<noteq> ''_files'') (map fst fs) = [] then []
                    else [(True, folder_marker @ '' Root Files'', 0)])
                   @ map (\<lambda>(path, name). (False, fst (splitext name), 0))
                       (sort_key (\<lambda>x. py_lower (snd x)) (files_at fs [])))))"
proof (intro conjI impI)
  show "map_sum id (map row_view) (library_rows [] ''/root'' lectures_tree) =
     Inr [(True, folder_marker @ '' Lectures'', 0),
          (True, folder_marker @ '' Root Files'', 0),
          (False, ''a'', 0)]"
    by (simp add: library_rows_lectures_tree row_view_def)
next
  assume "\<forall>d. map_of fs ''_files'' \<noteq> Some (Sub d)"
  then show "\<exists>rows. build_folder_model progress_data fs = Inr rows \<and>
         map row_view rows =
           map (\<lambda>name. (True, folder_marker @ '' '' @ name, 0))
             (sort (filter (\<lambda>k. k \<noteq> ''_files'') (map fst fs)))
           @ (if files_at fs [] = [] then []
              else (if filter (\<lambda>k. k \<noteq> ''_files'') (map fst fs) = [] then []
                    else [(True, folder_marker @ '' Root Files'', 0)])
                   @ map (\<lambda>(path, name). (False, fst (splitext name), 0))
                       (sort_key (\<lambda>x. py_lower (snd x)) (files_at fs [])))"
    by (rule build_folder_model_views)
qed

lemma lectures_views:
  "map (\<lambda>name. (True, folder_marker @ '' '' @ name, 0::nat))
     (sort (filter (\<lambda>k. k \<noteq> ''_files'')
        (map fst [(''_files'', Files [(''/root/a.mp4'', ''a.mp4'')]),
                  (''Lectures'', Sub [(''_files'', Files [(''/root/Lectures/b.mkv'', ''b.mkv'')])])])))
   @ (if files_at [(''_files'', Files [(''/root/a.mp4'', ''a.mp4'')]),
                  (''Lectures'', Sub [(''_files'', Files [(''/root/Lectures/b.mkv'', ''b.mkv'')])])] [] = []
      then []
      else (if filter (\<lambda>k. k \<noteq> ''_files'')
                (map fst [(''_files'', Files [(''/root/a.mp4'', ''a.mp4'')]),
                  (''Lectures'', Sub [(''_files'', Files [(''/root/Lectures/b.mkv'', ''b.mkv'')])])]) = []
            then [] else [(True, folder_marker @ '' Root Files'', 0)])
           @ map (\<lambda>(path, name). (False, fst (splitext name), 0))
               (sort_key (\<lambda>x. py_lower (snd x))
                  (files_at [(''_files'', Files [(''/root/a.mp4'', ''a.mp4'')]),
                  (''Lectures'', Sub [(''_files'', Files [(''/root/Lectures/b.mkv'', ''b.mkv'')])])] [])))
   = [(True, folder_marker @ '' Lectures'', 0),
      (True, folder_marker @ '' Root Files'', 0),
      (False, ''a'', 0)]"
  by code_simp

theorem C1_library_rows_witness:
  "(\<forall>d. map_of [(''_files'', Files [(''/root/a.mp4'', ''a.mp4'')]),
                 (''Lectures'', Sub [(''_files'', Files [(''/root/Lectures/b.mkv'', ''b.mkv'')])])]
          ''_files'' \<noteq> Some (Sub d))
   \<and> (\<exists>rows. build_folder_model []
                [(''_files'', Files [(''/root/a.mp4'', ''a.mp4'')]),
                 (''Lectures'', Sub [(''_files'', Files [(''/root/Lectures/b.mkv'', ''b.mkv'')])])]
              = Inr rows \<and>
        map row_view rows =
          [(True, folder_marker @ '' Lectures'', 0),
           (True, folder_marker @ '' Root Files'', 0),
           (False, ''a'', 0)])"
proof -
  have h: "\<forall>d. map_of [(''_files'', Files [(''/root/a.mp4'', ''a.mp4'')]),
                 (''Lectures'', Sub [(''_files'', Files [(''/root/Lectures/b.mkv'', ''b.mkv'')])])]
          ''_files'' \<noteq> Some (Sub d)"
    by simp
  from C1_library_rows
    [of "[(''_files'', Files [(''/root/a.mp4'', ''a.mp4'')]),
          (''Lectures'', Sub [(''_files'', Files [(''/root/Lectures/b.mkv'', ''b.mkv'')])])]" "[]"] h
  have "\<exists>rows. build_folder_model []
                [(''_files'', Files [(''/root/a.mp4'', ''a.mp4'')]),
                 (''Lectures'', Sub [(''_files'', Files [(''/root/Lectures/b.mkv'', ''b.mkv'')])])]
              = Inr rows \<and>
        map row_view rows =
          [(True, folder_marker @ '' Lectures'', 0),
           (True, folder_marker @ '' Root Files'', 0),
           (False, ''a'', 0)]"
    unfolding lectures_views by blast
  with h show ?thesis
    by blast
qed

text \<open>
  The rows for that directory are three, not four: no Video row for \<open>b\<close> follows the
  \<open>Lectures\<close> row, and no row has indent 1.
\<close>

theorem C1_no_child_rows_counterexample:
  "map_sum id (map row_view) (library_rows [] ''/root'' lectures_tree) =
     Inr [(True, folder_marker @ '' Lectures'', 0),
          (True, folder_marker @ '' Root Files'', 0),
          (False, ''a'', 0)]
   \<and> [(True, folder_marker @ '' Lectures'', 0::nat),
       (True, folder_marker @ '' Root Files'', 0),
       (False, ''a'', 0)]
     \<noteq> [(True, folder_marker @ '' Lectures'', 0),
         (False, ''b'', 1),
         (True, folder_marker @ '' Root Files'', 0),
         (False, ''a'', 0)]"
  by (simp add: library_rows_lectures_tree row_view_def)


end
